theory Spec2Isabelle
  imports Main "HOL-Library.Multiset"
begin

section \<open>The runtime seen by the assertion library\<close>

text \<open>
  The library of \<^verbatim>\<open>Test.go\<close> is a flat set of assertion functions. Each one decides a
  rule and, when the rule is not satisfied, calls \<^verbatim>\<open>FormatError\<close>, which hands one string
  to \<^verbatim>\<open>t.Fatal\<close>. \<^verbatim>\<open>t.Fatal\<close> logs the string, marks the test failed and ends the
  running goroutine (\<^verbatim>\<open>runtime.Goexit\<close>): no statement after it is executed. An assertion
  call therefore ends in one of three ways.
\<close>

datatype outcome =
    Pass              \<comment> \<open>the call returned; nothing was reported\<close>
  | Fatal string      \<comment> \<open>\<^verbatim>\<open>t.Fatal\<close> received this message and the test unit stopped\<close>
  | Panic string      \<comment> \<open>a panic with this value left the assertion call\<close>

fun is_Fatal :: "outcome \<Rightarrow> bool" where
  "is_Fatal (Fatal m) = True"
| "is_Fatal other = False"

fun is_Panic :: "outcome \<Rightarrow> bool" where
  "is_Panic (Panic v) = True"
| "is_Panic other = False"

subsection \<open>Call stacks and \<^verbatim>\<open>runtime.Caller\<close>\<close>

text \<open>
  A stack is the list of active frames, innermost first; a frame is the source position
  at which that function is currently executing. \<^verbatim>\<open>runtime.Caller(skip)\<close> reads the frame
  \<^verbatim>\<open>skip\<close> levels above the function that calls it, and answers the empty file name and
  line 0 when there is no such frame (the library ignores the \<^verbatim>\<open>ok\<close> result).
\<close>

record frame =
  fname :: string
  lineno :: nat

type_synonym stack = "frame list"

definition runtime_Caller :: "nat \<Rightarrow> stack \<Rightarrow> string \<times> nat" where
  "runtime_Caller skip stk =
     (if skip < length stk then (fname (stk ! skip), lineno (stk ! skip)) else ('''', 0))"

text \<open>A position inside \<^verbatim>\<open>Test.go\<close> itself, by line number of the source.\<close>

definition Test_go :: string where
  "Test_go = ''Test.go''"

definition here :: "nat \<Rightarrow> frame" where
  "here n = \<lparr>fname = Test_go, lineno = n\<rparr>"

subsection \<open>Formatting\<close>

text \<open>The verb \<^verbatim>\<open>%d\<close> of a non-negative integer: its decimal digits.\<close>

definition digit :: "nat \<Rightarrow> char" where
  "digit d = char_of (48 + d)"

function show_nat :: "nat \<Rightarrow> string" where
  "show_nat n = (if n < 10 then [digit n] else show_nat (n div 10) @ [digit (n mod 10)])"
  by pat_completeness auto
termination
  by (relation "measure id") auto

declare show_nat.simps [simp del]

text \<open>
  \<^verbatim>\<open>FormatError\<close> receives its two values boxed as \<^verbatim>\<open>any\<close> and prints each with the verbs
  \<^verbatim>\<open>%T\<close> and \<^verbatim>\<open>%v\<close>. An operand is what these two verbs print for one boxed value. The
  verbs belong to the package \<^verbatim>\<open>fmt\<close>; for a value of a generic type they are parameters
  of the model.
\<close>

record operand =
  tname :: string
  vtext :: string

record 'a verbs =
  verbT :: "'a \<Rightarrow> string"
  verbv :: "'a \<Rightarrow> string"

definition box :: "'a verbs \<Rightarrow> 'a \<Rightarrow> operand" where
  "box P x = \<lparr>tname = verbT P x, vtext = verbv P x\<rparr>"



definition box_int :: "nat \<Rightarrow> operand" where
  "box_int n = \<lparr>tname = ''int'', vtext = show_nat n\<rparr>"

definition box_bool :: "bool \<Rightarrow> operand" where
  "box_bool b = \<lparr>tname = ''bool'', vtext = (if b then ''true'' else ''false'')\<rparr>"

definition box_string :: "string \<Rightarrow> operand" where
  "box_string s = \<lparr>tname = ''string'', vtext = s\<rparr>"

definition box_nil :: operand where
  "box_nil = \<lparr>tname = ''<nil>'', vtext = ''<nil>''\<rparr>"

definition newline :: char where
  "newline = CHR 0x0A"

definition quote :: char where
  "quote = CHR 0x27"

text \<open>
  \<^verbatim>\<open>FormatError\<close>, lines 19 to 31: one \<^verbatim>\<open>Sprintf\<close> whose result goes to \<^verbatim>\<open>t.Fatal\<close>.
\<close>

definition report :: "operand \<Rightarrow> operand \<Rightarrow> string \<Rightarrow> string \<Rightarrow> nat \<Rightarrow> string" where
  "report expected got base f ln =
     ''Error | File '' @ f @ '' Line '' @ show_nat ln @ '' | '' @ base @ [newline] @
     ''Expected: ('' @ tname expected @ '') '' @ [quote] @ vtext expected @ [quote] @ [newline] @
     ''Got     : ('' @ tname got @ '') '' @ [quote] @ vtext got @ [quote]"

definition FormatError :: "operand \<Rightarrow> operand \<Rightarrow> string \<Rightarrow> string \<Rightarrow> nat \<Rightarrow> outcome" where
  "FormatError expected got base f ln = Fatal (report expected got base f ln)"

text \<open>
  Indexing a slice panics when the index is out of range; the model keeps that branch.
\<close>

definition index_panic :: "nat \<Rightarrow> nat \<Rightarrow> string" where
  "index_panic i n =
     ''runtime error: index out of range ['' @ show_nat i @ ''] with length '' @ show_nat n"

section \<open>Ordered comparison of slices\<close>

text \<open>
  \<^verbatim>\<open>SlicesMatch\<close>, lines 248 to 266. The element type is \<^verbatim>\<open>comparable\<close>; its \<^verbatim>\<open>==\<close> is
  the equality of the HOL type that stands for it. This is the \<^verbatim>\<open>==\<close> of integers, strings,
  booleans, pointers, and of the structs and arrays made of them. It is not that of
  floating-point numbers, where a NaN differs from itself, nor that of interface types,
  where \<^verbatim>\<open>==\<close> can panic; slices of such elements are outside the model. The loop is the
  recursion on the index, and an index expression keeps its range check.
\<close>

function SlicesMatch_loop ::
  "'a verbs \<Rightarrow> string \<Rightarrow> nat \<Rightarrow> 'a list \<Rightarrow> 'a list \<Rightarrow> nat \<Rightarrow> outcome" where
  "SlicesMatch_loop P f ln expected got i =
     (if i < length expected then
        (if \<not> i < length got then Panic (index_panic i (length got))
         else if expected ! i \<noteq> got ! i then
           FormatError (box P (expected ! i)) (box P (got ! i))
             (''Values do not match | Index: '' @ show_nat i) f ln
         else SlicesMatch_loop P f ln expected got (Suc i))
      else Pass)"
  by pat_completeness auto
termination
  by (relation "measure (\<lambda>(P, f, ln, expected, got, i). length expected - i)") auto

declare SlicesMatch_loop.simps [simp del]

definition SlicesMatch :: "'a verbs \<Rightarrow> stack \<Rightarrow> 'a list \<Rightarrow> 'a list \<Rightarrow> outcome" where
  "SlicesMatch P callers expected got =
     (let (f, ln) = runtime_Caller 1 (here 249 # callers) in
      if length expected \<noteq> length got then
        FormatError (box_int (length expected)) (box_int (length got))
          ''Slices do not match in length.'' f ln
      else SlicesMatch_loop P f ln expected got 0)"

section \<open>Unordered comparison of slices\<close>

text \<open>
  \<^verbatim>\<open>SlicesMatchUnordered\<close>, lines 271 to 309. \<^verbatim>\<open>usedIndexes\<close> is a map from \<^verbatim>\<open>int\<close> to the
  empty struct, that is a set of indexes; its \<^verbatim>\<open>len\<close> is the cardinality. The inner loop
  (lines 284 to 292) runs \<^verbatim>\<open>j\<close> upwards while \<^verbatim>\<open>found\<close> is false.
\<close>

function SlicesMatchUnordered_inner ::
  "'a list \<Rightarrow> 'a list \<Rightarrow> nat \<Rightarrow> nat set \<Rightarrow> nat \<Rightarrow> bool \<Rightarrow> bool \<times> nat set" where
  "SlicesMatchUnordered_inner expected got i usedIndexes j found =
     (if j < length got \<and> \<not> found then
        (if expected ! i = got ! j then
           (if j \<notin> usedIndexes then
              SlicesMatchUnordered_inner expected got i (insert j usedIndexes) (Suc j) True
            else SlicesMatchUnordered_inner expected got i usedIndexes (Suc j) found)
         else SlicesMatchUnordered_inner expected got i usedIndexes (Suc j) found)
      else (found, usedIndexes))"
  by pat_completeness auto
termination
  by (relation "measure (\<lambda>(expected, got, i, usedIndexes, j, found). length got - j)") auto

declare SlicesMatchUnordered_inner.simps [simp del]

function SlicesMatchUnordered_loop ::
  "'a list verbs \<Rightarrow> 'a verbs \<Rightarrow> string \<Rightarrow> nat \<Rightarrow> 'a list \<Rightarrow> 'a list \<Rightarrow> nat set \<Rightarrow> nat
     \<Rightarrow> outcome" where
  "SlicesMatchUnordered_loop PS P f ln expected got usedIndexes i =
     (if i < length expected then
        (case SlicesMatchUnordered_inner expected got i usedIndexes 0 False of
           (found, usedIndexes') \<Rightarrow>
             if \<not> found then
               (if \<not> i < length got then Panic (index_panic i (length got))
                else FormatError (box PS expected) (box P (got ! i))
                       (''Slice value was not accounted for | Index: '' @ show_nat i) f ln)
             else SlicesMatchUnordered_loop PS P f ln expected got usedIndexes' (Suc i))
      else if card usedIndexes \<noteq> length expected then
        FormatError (box PS expected) (box PS got)
          ''The slices were not found to have equivalent elements.'' f ln
      else Pass)"
  by pat_completeness auto
termination
  by (relation "measure (\<lambda>(PS, P, f, ln, expected, got, usedIndexes, i). length expected - i)")
    auto

declare SlicesMatchUnordered_loop.simps [simp del]

definition SlicesMatchUnordered ::
  "'a list verbs \<Rightarrow> 'a verbs \<Rightarrow> stack \<Rightarrow> 'a list \<Rightarrow> 'a list \<Rightarrow> outcome" where
  "SlicesMatchUnordered PS P callers expected got =
     (let (f, ln) = runtime_Caller 1 (here 272 # callers) in
      if length expected \<noteq> length got then
        FormatError (box_int (length expected)) (box_int (length got))
          ''Slices do not match in length.'' f ln
      else SlicesMatchUnordered_loop PS P f ln expected got {} 0)"



section \<open>Dynamic values\<close>

text \<open>
  \<^verbatim>\<open>Nil\<close>, \<^verbatim>\<open>NotNil\<close>, \<^verbatim>\<open>Neq\<close> and the value comparison of \<^verbatim>\<open>MapsMatch\<close> work on values
  boxed as \<^verbatim>\<open>any\<close>. A boxed value is either the nil interface or a value together with its
  dynamic type. The fragment of Go's values modelled here has booleans, integers, strings,
  slices, maps and pointers; a slice, a map and a pointer may be nil. A pointer carries its
  address and the value it points to. The dynamic type of a boxed value is never an
  interface type: boxing an interface value boxes what it holds.
\<close>

datatype gtype = TBool | TInt | TString | TSlice gtype | TMap gtype gtype | TPtr gtype | TAny

datatype gval =
    VBool bool
  | VInt int
  | VString string
  | VSlice gtype "gval list option"
  | VMap gtype gtype "(gval \<times> gval) list option"
  | VPtr gtype "(nat \<times> gval) option"

type_synonym boxed = "gval option"

fun dyn_type :: "gval \<Rightarrow> gtype" where
  "dyn_type (VBool b) = TBool"
| "dyn_type (VInt i) = TInt"
| "dyn_type (VString s) = TString"
| "dyn_type (VSlice t xs) = TSlice t"
| "dyn_type (VMap k v m) = TMap k v"
| "dyn_type (VPtr t p) = TPtr t"

fun type_name :: "gtype \<Rightarrow> string" where
  "type_name TBool = ''bool''"
| "type_name TInt = ''int''"
| "type_name TString = ''string''"
| "type_name (TSlice t) = ''[]'' @ type_name t"
| "type_name (TMap k v) = ''map['' @ type_name k @ '']'' @ type_name v"
| "type_name (TPtr t) = ''*'' @ type_name t"
| "type_name TAny = ''interface {}''"

text \<open>
  The verb \<^verbatim>\<open>%T\<close> of a boxed value prints its dynamic type; the verb \<^verbatim>\<open>%v\<close> is a
  parameter.
\<close>

definition box_any :: "(boxed \<Rightarrow> string) \<Rightarrow> boxed \<Rightarrow> operand" where
  "box_any sv v =
     \<lparr>tname = (case v of None \<Rightarrow> ''<nil>'' | Some g \<Rightarrow> type_name (dyn_type g)), vtext = sv v\<rparr>"

subsection \<open>Equality of interface values\<close>

text \<open>
  \<^verbatim>\<open>==\<close> on two interface values: different dynamic types are unequal; equal dynamic
  types of a kind that is not comparable panic; otherwise the values are compared.
  Pointers are equal when their addresses are.
\<close>

fun comparable :: "gtype \<Rightarrow> bool" where
  "comparable (TSlice t) = False"
| "comparable (TMap k v) = False"
| "comparable t = True"

fun val_eq :: "gval \<Rightarrow> gval \<Rightarrow> bool" where
  "val_eq (VBool a) (VBool b) = (a = b)"
| "val_eq (VInt a) (VInt b) = (a = b)"
| "val_eq (VString a) (VString b) = (a = b)"
| "val_eq (VPtr t p) (VPtr u q) = (map_option fst p = map_option fst q)"
| "val_eq a b = False"

fun iface_eq :: "boxed \<Rightarrow> boxed \<Rightarrow> string + bool" where
  "iface_eq None None = Inr True"
| "iface_eq None (Some b) = Inr False"
| "iface_eq (Some a) None = Inr False"
| "iface_eq (Some a) (Some b) =
     (if dyn_type a \<noteq> dyn_type b then Inr False
      else if \<not> comparable (dyn_type a) then
        Inl (''runtime error: comparing uncomparable type '' @ type_name (dyn_type a))
      else Inr (val_eq a b))"

subsection \<open>Reflection\<close>

text \<open>
  A \<^verbatim>\<open>reflect.Value\<close> is the zero Value, a value of a concrete kind, or a Value of kind
  \<^verbatim>\<open>Interface\<close> (which \<^verbatim>\<open>Elem\<close> yields for a pointer to an interface variable).
  \<^verbatim>\<open>reflect.ValueOf\<close> never yields the third form.
\<close>

datatype kind = KBool | KInt | KString | KSlice | KMap | KPointer | KInterface

fun Kind :: "gtype \<Rightarrow> kind" where
  "Kind TBool = KBool"
| "Kind TInt = KInt"
| "Kind TString = KString"
| "Kind (TSlice t) = KSlice"
| "Kind (TMap k v) = KMap"
| "Kind (TPtr t) = KPointer"
| "Kind TAny = KInterface"

datatype rvalue = Invalid | Held gval | IfaceOf boxed

fun reflect_ValueOf :: "boxed \<Rightarrow> rvalue" where
  "reflect_ValueOf None = Invalid"
| "reflect_ValueOf (Some g) = Held g"

text \<open>
  \<^verbatim>\<open>IsZero\<close>: a boolean is zero when false, an integer when 0, a string when empty; a
  slice, a map, a pointer and an interface when nil. On the zero Value it panics.
\<close>

fun is_zero :: "gval \<Rightarrow> bool" where
  "is_zero (VBool b) = (\<not> b)"
| "is_zero (VInt i) = (i = 0)"
| "is_zero (VString s) = (s = [])"
| "is_zero (VSlice t xs) = (xs = None)"
| "is_zero (VMap k v m) = (m = None)"
| "is_zero (VPtr t p) = (p = None)"

fun IsZero :: "rvalue \<Rightarrow> string + bool" where
  "IsZero Invalid = Inl ''reflect: call of reflect.Value.IsZero on zero Value''"
| "IsZero (Held g) = Inr (is_zero g)"
| "IsZero (IfaceOf b) = Inr (b = None)"

fun Elem :: "rvalue \<Rightarrow> string + rvalue" where
  "Elem (IfaceOf None) = Inr Invalid"
| "Elem (IfaceOf (Some g)) = Inr (Held g)"
| "Elem (Held (VPtr t None)) = Inr Invalid"
| "Elem (Held (VPtr t (Some (a, g)))) = Inr (if t = TAny then IfaceOf (Some g) else Held g)"
| "Elem other = Inl ''reflect: call of reflect.Value.Elem on a Value that is no interface or pointer''"

text \<open>\<^verbatim>\<open>rv.Elem().IsZero()\<close>, either call of which may panic.\<close>

definition Elem_IsZero :: "rvalue \<Rightarrow> string + bool" where
  "Elem_IsZero rv = (case Elem rv of Inl p \<Rightarrow> Inl p | Inr e \<Rightarrow> IsZero e)"

section \<open>Nil and NotNil\<close>

text \<open>
  \<^verbatim>\<open>Nil\<close>, lines 184 to 208. After the first test the value is not the nil interface, so
  \<^verbatim>\<open>reflect.TypeOf\<close> answers its dynamic type. The operator \<^verbatim>\<open>&&\<close> evaluates its right
  operand only when the left one is true.
\<close>

definition Nil_go :: "(boxed \<Rightarrow> string) \<Rightarrow> stack \<Rightarrow> boxed \<Rightarrow> outcome" where
  "Nil_go sv callers v =
     (case v of
        None \<Rightarrow> Pass
      | Some g \<Rightarrow>
          (let rv = reflect_ValueOf v in
           case IsZero rv of
             Inl p \<Rightarrow> Panic p
           | Inr z \<Rightarrow>
               if z then Pass
               else
                 (let tv = dyn_type g in
                  case (if Kind tv = KInterface then Elem_IsZero rv else Inr False) of
                    Inl p \<Rightarrow> Panic p
                  | Inr c \<Rightarrow>
                      if c then Pass
                      else
                        (let (f, ln) = runtime_Caller 1 (here 202 # callers) in
                         FormatError box_nil (box_any sv v)
                           ''The supplied value was not nil when it was expected to be.'' f ln))))"

text \<open>\<^verbatim>\<open>NotNil\<close>, lines 212 to 242; \<^verbatim>\<open>fail\<close> is the code after the label.\<close>

definition NotNil_fail :: "(boxed \<Rightarrow> string) \<Rightarrow> stack \<Rightarrow> boxed \<Rightarrow> outcome" where
  "NotNil_fail sv callers v =
     (let (f, ln) = runtime_Caller 1 (here 236 # callers) in
      FormatError (box_string ''!nil'') (box_any sv v)
        ''The supplied value was nil when it was not expected to be.'' f ln)"

definition NotNil :: "(boxed \<Rightarrow> string) \<Rightarrow> stack \<Rightarrow> boxed \<Rightarrow> outcome" where
  "NotNil sv callers v =
     (case v of
        None \<Rightarrow> NotNil_fail sv callers v
      | Some g \<Rightarrow>
          (let rv = reflect_ValueOf v in
           case IsZero rv of
             Inl p \<Rightarrow> Panic p
           | Inr z \<Rightarrow>
               if z then NotNil_fail sv callers v
               else
                 (let tv = dyn_type g in
                  case (if Kind tv = KInterface
                        then (case Elem_IsZero rv of Inl p \<Rightarrow> Inl p | Inr ez \<Rightarrow> Inr (\<not> ez))
                        else Inr False) of
                    Inl p \<Rightarrow> Panic p
                  | Inr c \<Rightarrow> if c then NotNil_fail sv callers v else Pass)))"

section \<open>Comparison of maps\<close>

text \<open>
  \<^verbatim>\<open>MapsMatch\<close>, lines 313 to 344. A Go map is modelled by the list of its entries, keys
  pairwise distinct, in the order in which \<^verbatim>\<open>range\<close> enumerates them in this run; \<^verbatim>\<open>len\<close>
  is the length of the list and a lookup is \<^const>\<open>map_of\<close>. The values are held boxed, as
  line 336 converts them. The key type is \<^verbatim>\<open>comparable\<close>; the value type is \<^verbatim>\<open>any\<close>.
\<close>

type_synonym 'k gomap = "('k \<times> boxed) list"

fun MapsMatch_loop ::
  "'k verbs \<Rightarrow> (boxed \<Rightarrow> string) \<Rightarrow> string \<Rightarrow> nat \<Rightarrow> 'k gomap \<Rightarrow> 'k gomap \<Rightarrow> outcome" where
  "MapsMatch_loop PK sv f ln [] got = Pass"
| "MapsMatch_loop PK sv f ln ((k, v) # rest) got =
     (case map_of got k of
        None \<Rightarrow>
          FormatError (box_bool True) (box_bool False)
            (''A key was not found | Key: '' @ verbv PK k) f ln
      | Some gotV \<Rightarrow>
          (case iface_eq gotV v of
             Inl p \<Rightarrow> Panic p
           | Inr same \<Rightarrow>
               if \<not> same then
                 FormatError (box_any sv gotV) (box_any sv v)
                   ''The values stored in the map did not match.'' f ln
               else MapsMatch_loop PK sv f ln rest got))"

definition MapsMatch ::
  "'k verbs \<Rightarrow> (boxed \<Rightarrow> string) \<Rightarrow> stack \<Rightarrow> 'k gomap \<Rightarrow> 'k gomap \<Rightarrow> outcome" where
  "MapsMatch PK sv callers expected got =
     (let (f, ln) = runtime_Caller 1 (here 318 # callers) in
      if length expected \<noteq> length got then
        FormatError (box_int (length expected)) (box_int (length got))
          ''Maps do not match in length.'' f ln
      else MapsMatch_loop PK sv f ln expected got)"

definition string_verbs :: "string verbs" where
  "string_verbs = \<lparr>verbT = (\<lambda>s. ''string''), verbv = (\<lambda>s. s)\<rparr>"

section \<open>Panics and NoPanic\<close>

text \<open>
  Invoking the action either returns or starts a panic with some value. While a panic
  unwinds, the deferred calls run on top of the panicking frames: \<^verbatim>\<open>over\<close> lists the
  frames that then lie over the frame of the assertion, innermost first (the runtime's
  \<^verbatim>\<open>gopanic\<close>, which makes the deferred calls, down to the action).
  \<^verbatim>\<open>recover\<close>, called by a deferred function, answers the value of the current panic and
  stops the panic; it answers nil when the goroutine is not panicking. Since Go 1.21 the
  value of a panic is never nil. An action that neither returns nor panics (it runs for
  ever, or ends its goroutine) is outside the model.
\<close>

datatype action = Returns | Panicking string stack

type_synonym panic_state = "string option"

definition recover :: "panic_state \<Rightarrow> string option \<times> panic_state" where
  "recover st = (st, None)"

text \<open>When the deferred calls are done, a panic that is still active leaves the function.\<close>

definition leave :: "panic_state \<Rightarrow> outcome" where
  "leave st = (case st of None \<Rightarrow> Pass | Some v \<Rightarrow> Panic v)"

text \<open>
  \<^verbatim>\<open>Panics\<close>, lines 49 to 62. The deferred closure (lines 50 to 60) is given the stack on
  which it runs, its own frame first, and the panic state. After a return of the action
  the closure is called from \<^verbatim>\<open>Panics\<close> at its end, line 62; during a panic it is called
  from the runtime, and \<^verbatim>\<open>Panics\<close> is still at the call of line 61.
\<close>

definition Panics_deferred :: "stack \<Rightarrow> panic_state \<Rightarrow> outcome" where
  "Panics_deferred stk st =
     (let (r, st') = recover st in
      if r = None then
        (let (f, ln) = runtime_Caller 1 stk in
         FormatError (box_string ''panic'') (box_string [])
           ''The supplied funciton did not panic when it should have.'' f ln)
      else leave st')"

definition Panics :: "stack \<Rightarrow> action \<Rightarrow> outcome" where
  "Panics callers act =
     (case act of
        Returns \<Rightarrow> Panics_deferred (here 52 # here 62 # callers) None
      | Panicking v over \<Rightarrow> Panics_deferred (here 52 # over @ here 61 # callers) (Some v))"

text \<open>\<^verbatim>\<open>NoPanic\<close>, lines 66 to 79, with its deferred closure (lines 67 to 77).\<close>

definition NoPanic_deferred :: "stack \<Rightarrow> panic_state \<Rightarrow> outcome" where
  "NoPanic_deferred stk st =
     (let (r, st') = recover st in
      if r \<noteq> None then
        (let (f, ln) = runtime_Caller 1 stk in
         FormatError (box_string []) (box_string ''panic'')
           (''The supplied funciton paniced when it shouldn'' @ [quote] @ ''t have.'') f ln)
      else leave st')"

definition NoPanic :: "stack \<Rightarrow> action \<Rightarrow> outcome" where
  "NoPanic callers act =
     (case act of
        Returns \<Rightarrow> NoPanic_deferred (here 69 # here 79 # callers) None
      | Panicking v over \<Rightarrow> NoPanic_deferred (here 69 # over @ here 78 # callers) (Some v))"

section \<open>ContainsError\<close>

text \<open>
  Errors are the nil error or a value built by \<^verbatim>\<open>errors.New\<close>, by wrapping
  (\<^verbatim>\<open>fmt.Errorf\<close> with \<^verbatim>\<open>%w\<close>) or by \<^verbatim>\<open>errors.Join\<close>. These are pointers; each node
  carries the address of its allocation, so that two nodes are the same error exactly when
  they are equal. None of them has an \<^verbatim>\<open>Is\<close> method.
\<close>

datatype goerr =
    ErrNew nat string
  | ErrWrap nat string goerr
  | ErrJoin nat "goerr list"

type_synonym error = "goerr option"

text \<open>
  \<^verbatim>\<open>errors.Is\<close> of the standard library: with a nil argument it compares the two; otherwise
  it compares the error with the target, then follows \<^verbatim>\<open>Unwrap\<close>, into every branch of a
  joined error.
\<close>

fun errors_is :: "goerr \<Rightarrow> goerr \<Rightarrow> bool" where
  "errors_is (ErrNew a m) target = (ErrNew a m = target)"
| "errors_is (ErrWrap a m inner) target = (ErrWrap a m inner = target \<or> errors_is inner target)"
| "errors_is (ErrJoin a errs) target =
     (ErrJoin a errs = target \<or> list_ex (\<lambda>e. errors_is e target) errs)"

definition errors_Is :: "error \<Rightarrow> error \<Rightarrow> bool" where
  "errors_Is err target =
     (case (err, target) of
        (Some e, Some t) \<Rightarrow> errors_is e t
      | other \<Rightarrow> err = target)"

text \<open>\<^verbatim>\<open>ContainsError\<close>, lines 34 to 45.\<close>

definition ContainsError :: "error verbs \<Rightarrow> stack \<Rightarrow> error \<Rightarrow> error \<Rightarrow> outcome" where
  "ContainsError PE callers expected got =
     (if \<not> errors_Is got expected then
        (let (f, ln) = runtime_Caller 1 (here 36 # callers) in
         FormatError (box PE expected) (box PE got)
           ''The expected error was not contained in the given error.'' f ln)
      else Pass)"

text \<open>The cause chain of an error: the error and all that unwrapping reaches.\<close>

fun chain :: "goerr \<Rightarrow> goerr list" where
  "chain (ErrNew a m) = [ErrNew a m]"
| "chain (ErrWrap a m inner) = ErrWrap a m inner # chain inner"
| "chain (ErrJoin a errs) = ErrJoin a errs # concat (map chain errs)"

text \<open>Wrapping an error once for every address of a list.\<close>

fun wrap :: "nat list \<Rightarrow> goerr \<Rightarrow> goerr" where
  "wrap [] e = e"
| "wrap (a # as) e = ErrWrap a ''context'' (wrap as e)"

section \<open>The remaining assertions\<close>

text \<open>
  \<^verbatim>\<open>Eq\<close> (83 to 92), \<^verbatim>\<open>EqOneOf\<close> (97 to 109), \<^verbatim>\<open>EqFunc\<close> (128 to 137), \<^verbatim>\<open>Neq\<close> (141 to 150),
  \<^verbatim>\<open>True\<close> (156 to 165) and \<^verbatim>\<open>False\<close> (171 to 180). \<^verbatim>\<open>Neq\<close> takes its values boxed and
  compares them as interfaces. \<^verbatim>\<open>EqFloat\<close> computes on floating point numbers and is not
  modelled.
\<close>

definition Eq :: "'a verbs \<Rightarrow> stack \<Rightarrow> 'a \<Rightarrow> 'a \<Rightarrow> outcome" where
  "Eq P callers expected got =
     (if expected \<noteq> got then
        (let (f, ln) = runtime_Caller 1 (here 85 # callers) in
         FormatError (box P expected) (box P got)
           ''The supplied values were not equal but were expected to be.'' f ln)
      else Pass)"

fun EqOneOf_loop :: "'a \<Rightarrow> 'a list \<Rightarrow> bool" where
  "EqOneOf_loop expected [] = False"
| "EqOneOf_loop expected (rVal # data) =
     (if expected = rVal then True else EqOneOf_loop expected data)"

definition EqOneOf :: "'a list verbs \<Rightarrow> 'a verbs \<Rightarrow> stack \<Rightarrow> 'a \<Rightarrow> 'a list \<Rightarrow> outcome" where
  "EqOneOf PS P callers expected data =
     (if EqOneOf_loop expected data then Pass
      else
        (let (f, ln) = runtime_Caller 1 (here 103 # callers) in
         FormatError (box P expected) (box PS data)
           ''The supplied value is not in the supplied slice.'' f ln))"

definition EqFunc :: "'a verbs \<Rightarrow> stack \<Rightarrow> 'a \<Rightarrow> 'a \<Rightarrow> ('a \<Rightarrow> 'a \<Rightarrow> bool) \<Rightarrow> outcome" where
  "EqFunc P callers expected got cmp =
     (if \<not> cmp expected got then
        (let (f, ln) = runtime_Caller 1 (here 130 # callers) in
         FormatError (box P expected) (box P got)
           ''The supplied values were not equal as defined by the supplied comparison function but were expected to be.''
           f ln)
      else Pass)"

definition Neq :: "(boxed \<Rightarrow> string) \<Rightarrow> stack \<Rightarrow> boxed \<Rightarrow> boxed \<Rightarrow> outcome" where
  "Neq sv callers expected got =
     (case iface_eq expected got of
        Inl p \<Rightarrow> Panic p
      | Inr same \<Rightarrow>
          if same then
            (let (f, ln) = runtime_Caller 1 (here 143 # callers) in
             FormatError (box_any sv expected) (box_any sv got)
               ''The supplied values were equal but were expected to not be.'' f ln)
          else Pass)"

definition True_go :: "stack \<Rightarrow> bool \<Rightarrow> outcome" where
  "True_go callers v =
     (if v \<noteq> True then
        (let (f, ln) = runtime_Caller 1 (here 158 # callers) in
         FormatError (box_bool True) (box_bool v)
           ''The supplied value was not true when it was expected to be.'' f ln)
      else Pass)"

definition False_go :: "stack \<Rightarrow> bool \<Rightarrow> outcome" where
  "False_go callers v =
     (if v \<noteq> False then
        (let (f, ln) = runtime_Caller 1 (here 173 # callers) in
         FormatError (box_bool False) (box_bool v)
           ''The supplied value was not false when it was expected to be.'' f ln)
      else Pass)"

section \<open>Notions used to state the properties\<close>




text \<open>Whether invoking an action panics.\<close>

fun panics :: "action \<Rightarrow> bool" where
  "panics Returns = False"
| "panics (Panicking v over) = True"

text \<open>
  Verbs for the errors of the model: \<^verbatim>\<open>%T\<close> names the pointer type, \<^verbatim>\<open>%v\<close> prints the
  message of the outermost node.
\<close>

definition err_verbs :: "error verbs" where
  "err_verbs =
     \<lparr>verbT = (\<lambda>e. case e of
          None \<Rightarrow> ''<nil>''
        | Some (ErrNew a m) \<Rightarrow> ''*errors.errorString''
        | Some (ErrWrap a m inner) \<Rightarrow> ''*fmt.wrapError''
        | Some (ErrJoin a errs) \<Rightarrow> ''*errors.joinError''),
      verbv = (\<lambda>e. case e of
          None \<Rightarrow> ''<nil>''
        | Some (ErrNew a m) \<Rightarrow> m
        | Some (ErrWrap a m inner) \<Rightarrow> m
        | Some (ErrJoin a errs) \<Rightarrow> ''joined'')\<rparr>"

text \<open>
  An outcome reports at a position when, if it is a report at all, the report has the
  three-line shape and carries the file and the line of that position.
\<close>

definition reports_at :: "frame \<Rightarrow> outcome \<Rightarrow> bool" where
  "reports_at site out =
     (case out of
        Fatal m \<Rightarrow> (\<exists>expected got base. m = report expected got base (fname site) (lineno site))
      | other \<Rightarrow> True)"

section \<open>Properties\<close>

subsection \<open>Ordered comparison\<close>




lemma runtime_Caller_1 [simp]:
  "runtime_Caller 1 (fr # site # rest) = (fname site, lineno site)"
  "runtime_Caller (Suc 0) (fr # site # rest) = (fname site, lineno site)"
  by (simp_all add: runtime_Caller_def)






subsection \<open>Unordered comparison\<close>

















subsection \<open>Panics and NoPanic\<close>

text \<open>
  C3. For every action, \<^verbatim>\<open>Panics\<close> reports exactly when invoking the action does not
  panic and \<^verbatim>\<open>NoPanic\<close> reports exactly when it does; each returns without a report in the
  other case; and in no case does a panic leave the assertion call.
\<close>

theorem Panics_NoPanic_recover:
  "(is_Fatal (Panics callers act) \<longleftrightarrow> \<not> panics act)
   \<and> (is_Fatal (NoPanic callers act) \<longleftrightarrow> panics act)
   \<and> (Panics callers act = Pass \<longleftrightarrow> panics act)
   \<and> (NoPanic callers act = Pass \<longleftrightarrow> \<not> panics act)
   \<and> \<not> is_Panic (Panics callers act)
   \<and> \<not> is_Panic (NoPanic callers act)"
  by (cases act)
    (simp_all add: Panics_def NoPanic_def Panics_deferred_def NoPanic_deferred_def recover_def
      leave_def FormatError_def split: prod.split)

theorem Panics_NoPanic_recover_witness:
  "Panics [\<lparr>fname = ''x_test.go'', lineno = 10\<rparr>]
     (Panicking ''boom'' [\<lparr>fname = ''runtime/panic.go'', lineno = 792\<rparr>,
        \<lparr>fname = ''x_test.go'', lineno = 11\<rparr>]) = Pass
   \<and> is_Fatal (NoPanic [\<lparr>fname = ''x_test.go'', lineno = 10\<rparr>]
     (Panicking ''boom'' [\<lparr>fname = ''runtime/panic.go'', lineno = 792\<rparr>,
        \<lparr>fname = ''x_test.go'', lineno = 11\<rparr>]))
   \<and> is_Fatal (Panics [\<lparr>fname = ''x_test.go'', lineno = 10\<rparr>] Returns)
   \<and> NoPanic [\<lparr>fname = ''x_test.go'', lineno = 10\<rparr>] Returns = Pass"
  using Panics_NoPanic_recover [of "[\<lparr>fname = ''x_test.go'', lineno = 10\<rparr>]"
      "Panicking ''boom'' [\<lparr>fname = ''runtime/panic.go'', lineno = 792\<rparr>,
        \<lparr>fname = ''x_test.go'', lineno = 11\<rparr>]"]
    Panics_NoPanic_recover [of "[\<lparr>fname = ''x_test.go'', lineno = 10\<rparr>]" Returns]
  by simp

subsection \<open>Nil and NotNil\<close>

text \<open>The dynamic type of a boxed value is never of kind \<^verbatim>\<open>Interface\<close>: the third test of
  \<^verbatim>\<open>Nil\<close> and of \<^verbatim>\<open>NotNil\<close> is never taken.\<close>

lemma Kind_dyn_type: "Kind (dyn_type g) \<noteq> KInterface"
  by (cases g) simp_all

lemma Nil_go_Pass: "Nil_go sv callers v = Pass \<longleftrightarrow> (case v of None \<Rightarrow> True | Some g \<Rightarrow> is_zero g)"
  by (auto simp: Nil_go_def Kind_dyn_type FormatError_def split: option.split prod.split)

lemma Nil_go_Fatal: "is_Fatal (Nil_go sv callers v) \<longleftrightarrow> (case v of None \<Rightarrow> False | Some g \<Rightarrow> \<not> is_zero g)"
  by (auto simp: Nil_go_def Kind_dyn_type FormatError_def split: option.split prod.split)

lemma NotNil_Pass: "NotNil sv callers v = Pass \<longleftrightarrow> (case v of None \<Rightarrow> False | Some g \<Rightarrow> \<not> is_zero g)"
  by (auto simp: NotNil_def NotNil_fail_def Kind_dyn_type FormatError_def split: option.split prod.split)

lemma NotNil_Fatal: "is_Fatal (NotNil sv callers v) \<longleftrightarrow> (case v of None \<Rightarrow> True | Some g \<Rightarrow> is_zero g)"
  by (auto simp: NotNil_def NotNil_fail_def Kind_dyn_type FormatError_def split: option.split prod.split)

text \<open>
  C9. \<^verbatim>\<open>NotNil\<close> reports exactly when \<^verbatim>\<open>Nil\<close> does not, and each returns without a report
  exactly when the other reports, for every boxed value.
\<close>

theorem Nil_NotNil_complement:
  "(is_Fatal (NotNil sv callers v) \<longleftrightarrow> \<not> is_Fatal (Nil_go sv callers v))
   \<and> (NotNil sv callers v = Pass \<longleftrightarrow> Nil_go sv callers v \<noteq> Pass)
   \<and> (NotNil sv callers v = Pass \<longleftrightarrow> is_Fatal (Nil_go sv callers v))
   \<and> (Nil_go sv callers v = Pass \<longleftrightarrow> is_Fatal (NotNil sv callers v))"
  by (simp add: Nil_go_Pass Nil_go_Fatal NotNil_Pass NotNil_Fatal split: option.split)

theorem Nil_NotNil_complement_witness:
  "is_Fatal (NotNil (\<lambda>v. ''?'') [\<lparr>fname = ''x_test.go'', lineno = 10\<rparr>] (Some (VSlice TInt None)))
   \<and> Nil_go (\<lambda>v. ''?'') [\<lparr>fname = ''x_test.go'', lineno = 10\<rparr>] (Some (VSlice TInt None)) = Pass"
proof -
  note T = Nil_NotNil_complement [of "\<lambda>v. ''?''" "[\<lparr>fname = ''x_test.go'', lineno = 10\<rparr>]"
      "Some (VSlice TInt None)"]
  have a: "Nil_go (\<lambda>v. ''?'') [\<lparr>fname = ''x_test.go'', lineno = 10\<rparr>] (Some (VSlice TInt None)) = Pass"
    by (simp add: Nil_go_def)
  with T show ?thesis by simp
qed

text \<open>
  What \<^verbatim>\<open>Nil\<close> does on the three layers of absence and on present containers: the nil
  interface, a nil slice, a nil map and a nil pointer pass; a slice, a map and a pointer
  that are not nil are reported.
\<close>

lemma Nil_go_layers:
  "Nil_go sv callers None = Pass
   \<and> Nil_go sv callers (Some (VSlice t None)) = Pass
   \<and> Nil_go sv callers (Some (VMap k u None)) = Pass
   \<and> Nil_go sv callers (Some (VPtr t None)) = Pass
   \<and> is_Fatal (Nil_go sv callers (Some (VSlice t (Some xs))))
   \<and> is_Fatal (Nil_go sv callers (Some (VMap k u (Some m))))
   \<and> is_Fatal (Nil_go sv callers (Some (VPtr t (Some p))))"
  by (simp add: Nil_go_Pass Nil_go_Fatal)

text \<open>
  C2. \<^verbatim>\<open>Nil\<close> also returns without a report on values that are present: the integer 0,
  the empty string and \<^verbatim>\<open>false\<close> are the zero values of their types, \<^verbatim>\<open>IsZero\<close> is true
  of them, and the second test of \<^verbatim>\<open>Nil\<close> lets them pass.
\<close>

theorem Nil_passes_on_zero_scalars:
  "Nil_go sv callers (Some (VInt 0)) = Pass
   \<and> Nil_go sv callers (Some (VString [])) = Pass
   \<and> Nil_go sv callers (Some (VBool False)) = Pass"
  by (simp add: Nil_go_Pass)

subsection \<open>Comparison of maps\<close>







text \<open>
  C10. When the maps have equal size and the first key enumerated is in both maps with
  values of one dynamic type that cannot be compared, for example slices, the comparison
  of line 336 panics: \<^verbatim>\<open>MapsMatch\<close> neither reports nor returns, whatever the values hold,
  also when the two maps are equal.
\<close>

theorem MapsMatch_uncomparable_panics:
  "(length e = length g \<and> e = (k, Some x) # others \<and> map_of g k = Some (Some y)
      \<and> dyn_type y = dyn_type x \<and> \<not> comparable (dyn_type x) \<longrightarrow>
    MapsMatch PK sv (site # rest) e g =
      Panic (''runtime error: comparing uncomparable type '' @ type_name (dyn_type x)))
   \<and> (length e = length g \<and> e = (k, Some (VSlice t xs)) # others
      \<and> map_of g k = Some (Some (VSlice t ys)) \<longrightarrow>
    MapsMatch PK sv (site # rest) e g =
      Panic (''runtime error: comparing uncomparable type []'' @ type_name t))"
  by (auto simp: MapsMatch_def runtime_Caller_1)

theorem MapsMatch_uncomparable_panics_witness:
  "MapsMatch string_verbs (\<lambda>v. ''?'') [\<lparr>fname = ''x_test.go'', lineno = 10\<rparr>]
     [(''a'', Some (VSlice TInt (Some [VInt 1])))]
     [(''a'', Some (VSlice TInt (Some [VInt 1])))] =
   Panic ''runtime error: comparing uncomparable type []int''"
  using MapsMatch_uncomparable_panics [where PK = string_verbs and sv = "\<lambda>v. ''?''"
      and site = "\<lparr>fname = ''x_test.go'', lineno = 10\<rparr>" and rest = "[]"
      and e = "[(''a'', Some (VSlice TInt (Some [VInt 1])))]"
      and g = "[(''a'', Some (VSlice TInt (Some [VInt 1])))]"
      and k = "''a''" and t = TInt and xs = "Some [VInt 1]" and ys = "Some [VInt 1]" and others = "[]"
      and x = "VSlice TInt (Some [VInt 1])" and y = "VSlice TInt (Some [VInt 1])"]
  by simp

subsection \<open>ContainsError\<close>

lemma chain_self: "g \<in> set (chain g)"
  by (cases g) simp_all

lemma errors_is_chain: "errors_is g t \<longleftrightarrow> t \<in> set (chain g)"
proof (induction g)
  case (ErrNew a m)
  show ?case by auto
next
  case (ErrWrap a m inner)
  then show ?case by auto
next
  case (ErrJoin a errs)
  then show ?case by (auto simp: list_ex_iff)
qed

lemma chain_wrap: "t \<in> set (chain (wrap as t))"
  by (induction as) (simp_all add: chain_self)

text \<open>
  C6. For errors that are not nil, \<^verbatim>\<open>ContainsError\<close> returns without a report exactly when
  the expected error is in the cause chain of the actual error, and reports exactly when
  it is not; an error wrapped any number of times contains itself. With nil arguments it
  passes only when both are nil.
\<close>

theorem ContainsError_chain:
  "(ContainsError PE callers (Some t) (Some g) = Pass \<longleftrightarrow> t \<in> set (chain g))
   \<and> (is_Fatal (ContainsError PE callers (Some t) (Some g)) \<longleftrightarrow> t \<notin> set (chain g))
   \<and> ContainsError PE callers (Some t) (Some (wrap as t)) = Pass
   \<and> ContainsError PE callers None None = Pass
   \<and> is_Fatal (ContainsError PE callers (Some t) None)
   \<and> is_Fatal (ContainsError PE callers None (Some g))"
  by (simp add: ContainsError_def errors_Is_def errors_is_chain chain_wrap FormatError_def
      split: prod.split)

theorem ContainsError_chain_witness:
  "ContainsError err_verbs [\<lparr>fname = ''x_test.go'', lineno = 10\<rparr>] (Some (ErrNew 1 ''target''))
     (Some (ErrWrap 3 ''context'' (ErrWrap 2 ''context'' (ErrNew 1 ''target'')))) = Pass
   \<and> is_Fatal (ContainsError err_verbs [\<lparr>fname = ''x_test.go'', lineno = 10\<rparr>]
     (Some (ErrNew 1 ''target'')) (Some (ErrWrap 3 ''context'' (ErrNew 4 ''target''))))"
proof -
  note T1 = ContainsError_chain [of err_verbs "[\<lparr>fname = ''x_test.go'', lineno = 10\<rparr>]"
      "ErrNew 1 ''target''" "ErrNew 1 ''target''" "[3, 2]"]
  note T2 = ContainsError_chain [of err_verbs "[\<lparr>fname = ''x_test.go'', lineno = 10\<rparr>]"
      "ErrNew 1 ''target''" "ErrWrap 3 ''context'' (ErrNew 4 ''target'')" "[]"]
  from T1 have a: "ContainsError err_verbs [\<lparr>fname = ''x_test.go'', lineno = 10\<rparr>]
      (Some (ErrNew 1 ''target''))
      (Some (ErrWrap 3 ''context'' (ErrWrap 2 ''context'' (ErrNew 1 ''target'')))) = Pass"
    by simp
  from T2 have b: "is_Fatal (ContainsError err_verbs [\<lparr>fname = ''x_test.go'', lineno = 10\<rparr>]
      (Some (ErrNew 1 ''target'')) (Some (ErrWrap 3 ''context'' (ErrNew 4 ''target''))))"
    by simp
  from a b show ?thesis by simp
qed

subsection \<open>Failure reports\<close>

text \<open>
  Every report of an assertion other than \<^verbatim>\<open>Panics\<close> and \<^verbatim>\<open>NoPanic\<close> has the three-line
  shape of \<^const>\<open>report\<close> and carries the file and the line of the call site.
\<close>

lemma reports_at_simps [simp]:
  "reports_at site Pass"
  "reports_at site (Panic p)"
  "reports_at site (FormatError expected got base (fname site) (lineno site))"
  by (auto simp: reports_at_def FormatError_def)

lemma SlicesMatch_loop_reports:
  "reports_at site (SlicesMatch_loop P (fname site) (lineno site) e g i)"
  by (induction P "fname site" "lineno site" e g i rule: SlicesMatch_loop.induct)
    (subst SlicesMatch_loop.simps, simp)

lemma SlicesMatchUnordered_loop_reports:
  "reports_at site (SlicesMatchUnordered_loop PS P (fname site) (lineno site) e g used i)"
  by (induction PS P "fname site" "lineno site" e g used i rule: SlicesMatchUnordered_loop.induct)
    (subst SlicesMatchUnordered_loop.simps, simp split: prod.split)

lemma MapsMatch_loop_reports:
  "reports_at site (MapsMatch_loop PK sv (fname site) (lineno site) e g)"
  by (induction e) (auto split: option.split sum.split)

lemma reports_at_caller:
  "reports_at site (ContainsError PE (site # rest) expected_err got_err)"
  "reports_at site (Eq P (site # rest) x y)"
  "reports_at site (EqOneOf PS P (site # rest) x xs)"
  "reports_at site (EqFunc P (site # rest) x y cmp)"
  "reports_at site (Neq sv (site # rest) a b)"
  "reports_at site (True_go (site # rest) c)"
  "reports_at site (False_go (site # rest) c)"
  "reports_at site (Nil_go sv (site # rest) a)"
  "reports_at site (NotNil sv (site # rest) a)"
  "reports_at site (SlicesMatch P (site # rest) e g)"
  "reports_at site (SlicesMatchUnordered PS P (site # rest) e g)"
  "reports_at site (MapsMatch PK sv (site # rest) m n)"
  by (simp_all add: ContainsError_def Eq_def EqOneOf_def EqFunc_def Neq_def True_go_def
      False_go_def Nil_go_def NotNil_def NotNil_fail_def SlicesMatch_def SlicesMatchUnordered_def
      MapsMatch_def SlicesMatch_loop_reports SlicesMatchUnordered_loop_reports
      MapsMatch_loop_reports split: sum.split option.split)

lemma show_nat_62: "show_nat 62 = ''62''" by code_simp

text \<open>
  C8. The reports of \<^verbatim>\<open>Panics\<close> and \<^verbatim>\<open>NoPanic\<close> have the three-line shape but do not
  carry the position of the caller. Both read \<^verbatim>\<open>runtime.Caller(1)\<close> inside the deferred
  closure, where one level up is the function that runs the closure: \<^verbatim>\<open>Panics\<close> itself at
  the end of its body (a report of \<^verbatim>\<open>Panics\<close> means the action returned), and the runtime
  frame that unwinds the panic for \<^verbatim>\<open>NoPanic\<close> (a report of \<^verbatim>\<open>NoPanic\<close> means the action
  panicked). Called from line 10 of \<^verbatim>\<open>x_test.go\<close> with an action that returns, \<^verbatim>\<open>Panics\<close>
  reports file \<^verbatim>\<open>Test.go\<close>, line 62.
\<close>

theorem Panics_NoPanic_report_position:
  "Panics (site # rest) Returns =
     Fatal (report (box_string ''panic'') (box_string [])
        ''The supplied funciton did not panic when it should have.'' Test_go 62)
   \<and> NoPanic (site # rest) (Panicking v (rt # over)) =
     Fatal (report (box_string []) (box_string ''panic'')
        (''The supplied funciton paniced when it shouldn'' @ [quote] @ ''t have.'')
        (fname rt) (lineno rt))
   \<and> Panics [\<lparr>fname = ''x_test.go'', lineno = 10\<rparr>] Returns =
     Fatal (''Error | File Test.go Line 62 | The supplied funciton did not panic when it should have.''
       @ [newline] @ ''Expected: (string) '' @ [quote] @ ''panic'' @ [quote] @ [newline]
       @ ''Got     : (string) '' @ [quote] @ [quote])
   \<and> \<not> reports_at \<lparr>fname = ''x_test.go'', lineno = 10\<rparr>
         (Panics [\<lparr>fname = ''x_test.go'', lineno = 10\<rparr>] Returns)"
proof -
  have a: "Panics (site # rest) Returns =
     Fatal (report (box_string ''panic'') (box_string [])
        ''The supplied funciton did not panic when it should have.'' Test_go 62)" for site rest
    by (simp add: Panics_def Panics_deferred_def recover_def FormatError_def runtime_Caller_def
        here_def)
  have b: "NoPanic (site # rest) (Panicking v (rt # over)) =
     Fatal (report (box_string []) (box_string ''panic'')
        (''The supplied funciton paniced when it shouldn'' @ [quote] @ ''t have.'')
        (fname rt) (lineno rt))"
    by (simp add: NoPanic_def NoPanic_deferred_def recover_def FormatError_def runtime_Caller_def)
  have c: "Panics [\<lparr>fname = ''x_test.go'', lineno = 10\<rparr>] Returns =
     Fatal (''Error | File Test.go Line 62 | The supplied funciton did not panic when it should have.''
       @ [newline] @ ''Expected: (string) '' @ [quote] @ ''panic'' @ [quote] @ [newline]
       @ ''Got     : (string) '' @ [quote] @ [quote])"
    unfolding a by (simp add: report_def box_string_def Test_go_def show_nat_62)
  have d: "\<not> reports_at \<lparr>fname = ''x_test.go'', lineno = 10\<rparr>
         (Panics [\<lparr>fname = ''x_test.go'', lineno = 10\<rparr>] Returns)"
    unfolding a by (simp add: reports_at_def report_def Test_go_def)
  from a b c d show ?thesis by blast
qed

end
